theory Spec2Isabelle
  imports Main "HOL-Library.Sublist"
begin

section \<open>Strings and arrays as the program uses them\<close>

text \<open>
  JavaScript strings are modelled as \<^typ>\<open>string\<close>, one \<^typ>\<open>char\<close> per code unit
  (code units below 256), and the JavaScript numbers that carry line numbers as \<^typ>\<open>int\<close>.
  A value that may be \<^verbatim>\<open>undefined\<close> or \<^verbatim>\<open>null\<close> is an \<^typ>\<open>'a option\<close>.
\<close>

text \<open>\<^verbatim>\<open>s.split("\n")\<close>: the pieces between newlines; the empty string gives one empty piece.\<close>

fun split_nl :: "string \<Rightarrow> string list" where
  "split_nl [] = [[]]"
| "split_nl (c # cs) =
     (if c = CHR 0x0A then [] # split_nl cs
      else (c # hd (split_nl cs)) # tl (split_nl cs))"

text \<open>\<^verbatim>\<open>lines.join("\n")\<close>\<close>

fun join_nl :: "string list \<Rightarrow> string" where
  "join_nl [] = []"
| "join_nl [l] = l"
| "join_nl (l # m # ls) = l @ CHR 0x0A # join_nl (m # ls)"

text \<open>
  \<^verbatim>\<open>Array.prototype.slice(start, end)\<close> on integer arguments: a negative index counts
  from the end, both indices are clamped to the array, and an empty range gives \<open>[]\<close>.
\<close>

definition js_slice :: "'a list \<Rightarrow> int \<Rightarrow> int \<Rightarrow> 'a list" where
  "js_slice xs start end =
     (let len = int (length xs);
          k = (if start < 0 then max (len + start) 0 else min start len);
          final = (if end < 0 then max (len + end) 0 else min end len)
      in take (nat (final - k)) (drop (nat k) xs))"

text \<open>
  \<^verbatim>\<open>s.indexOf(n)\<close> (the position of the first occurrence, \<open>None\<close> for \<open>-1\<close>) and
  \<^verbatim>\<open>s.includes(n)\<close>.
\<close>

fun indexOf :: "string \<Rightarrow> string \<Rightarrow> nat option" where
  "indexOf [] n = (if n = [] then Some 0 else None)"
| "indexOf (c # cs) n =
     (if prefix n (c # cs) then Some 0 else map_option Suc (indexOf cs n))"

definition includes_str :: "string \<Rightarrow> string \<Rightarrow> bool" where
  "includes_str s n = (indexOf s n \<noteq> None)"

text \<open>
  \<^verbatim>\<open>s.trim()\<close> removes white space and line terminators at both ends; below code unit
  256 these are tab, line feed, vertical tab, form feed, carriage return, space and the
  no-break space. The dot of a regular expression matches every code unit but a line
  terminator (below 256: line feed and carriage return).
\<close>

definition is_whitespace :: "char \<Rightarrow> bool" where
  "is_whitespace c = (c \<in> {CHR 0x09, CHR 0x0A, CHR 0x0B, CHR 0x0C, CHR 0x0D, CHR 0x20, CHR 0xA0})"

definition js_trim :: "string \<Rightarrow> string" where
  "js_trim s = rev (dropWhile is_whitespace (rev (dropWhile is_whitespace s)))"

definition is_line_terminator :: "char \<Rightarrow> bool" where
  "is_line_terminator c = (c = CHR 0x0A \<or> c = CHR 0x0D)"

text \<open>
  Truthiness of an optional string (\<^verbatim>\<open>undefined\<close> and \<^verbatim>\<open>""\<close> are falsy) and of an
  optional number (\<^verbatim>\<open>undefined\<close> and \<^verbatim>\<open>0\<close> are falsy).
\<close>

definition truthy_str :: "string option \<Rightarrow> bool" where
  "truthy_str v = (case v of None \<Rightarrow> False | Some s \<Rightarrow> s \<noteq> [])"

definition truthy_num :: "int option \<Rightarrow> bool" where
  "truthy_num v = (case v of None \<Rightarrow> False | Some n \<Rightarrow> n \<noteq> 0)"

section \<open>The code context extractor (main.ts)\<close>

text \<open>\<^verbatim>\<open>const MAX_CONTEXT_LINES = 20\<close>\<close>

definition MAX_CONTEXT_LINES :: int where
  "MAX_CONTEXT_LINES = 20"

text \<open>\<^verbatim>\<open>function getCodeContext(fileContent, lineNumber, maxLines)\<close>\<close>

definition getCodeContext :: "string \<Rightarrow> int \<Rightarrow> int \<Rightarrow> string" where
  "getCodeContext fileContent lineNumber maxLines =
     (if fileContent = [] \<or> lineNumber \<le> 0 then []
      else
        let lines = split_nl fileContent;
            targetLineIndex = lineNumber - 1
        in if targetLineIndex < 0 \<or> targetLineIndex \<ge> int (length lines) then []
           else
             let startLine = max 0 (targetLineIndex - maxLines);
                 endLine = min (int (length lines) - 1) (targetLineIndex + maxLines)
             in join_nl (js_slice lines startLine (endLine + 1)))"

text \<open>\<^verbatim>\<open>const getOriginalCode = (startLine, endLine, fileContent) => ...\<close>\<close>

definition getOriginalCode :: "int \<Rightarrow> int \<Rightarrow> string \<Rightarrow> string" where
  "getOriginalCode startLine endLine fileContent =
     (let lines = split_nl fileContent;
          startLineIndex = startLine - 1;
          endLineIndex = endLine - 1
      in if startLineIndex < 0 \<or> endLineIndex \<ge> int (length lines) then []
         else join_nl (js_slice lines startLineIndex (endLineIndex + 1)))"

section \<open>Data model (services/VersionControlService.ts, services/LlmService.ts)\<close>

text \<open>
  A thrown value is an error object with its \<^verbatim>\<open>message\<close>; a missing message is the empty
  string (the only test the program makes on it is \<^verbatim>\<open>error.message || ...\<close>).
\<close>

datatype js_error = Error (message: string)

text \<open>A comment id is \<^verbatim>\<open>string | number\<close>.\<close>

datatype comment_id = IdNumber int | IdString string

text \<open>
  The comment as the pipeline and both platform services use it: \<^verbatim>\<open>id\<close> (here
  \<open>commentId\<close>), \<^verbatim>\<open>body\<close>, \<^verbatim>\<open>filePath\<close>, \<^verbatim>\<open>endLineNumber\<close> and
  \<^verbatim>\<open>startLineNumber\<close>. (The interface in services/VersionControlService.ts still
  declares a single \<^verbatim>\<open>lineNumber\<close>; every use reads the two fields modelled here.)
\<close>

record Comment =
  commentId :: comment_id
  body :: string
  filePath :: "string option"
  endLineNumber :: "int option"
  startLineNumber :: "int option"

record PullRequestDetails =
  owner :: string
  repo :: string
  pullNumber :: int
  headRef :: "string option"
  baseRef :: "string option"

record FileContent =
  path :: string
  content :: string
  encoding :: "string option"

text \<open>
  Modelled from the spec: services/LlmService.ts, which declares \<^verbatim>\<open>LlmPromptPayload\<close>,
  \<^verbatim>\<open>LlmSuggestion\<close> and \<^verbatim>\<open>LlmService\<close>, is missing from the sources. The records have
  the fields that \<^verbatim>\<open>generateSuggestion\<close> and \<^verbatim>\<open>processComment\<close> read and write, which
  are the attributes of the specification's PromptPayload and SuggestionResult. The
  payload's \<^verbatim>\<open>filePath\<close> is \<open>promptFilePath\<close> here.
\<close>

record LlmPromptPayload =
  reviewerComment :: string
  codeContext :: string
  promptFilePath :: "string option"
  originalCode :: string
  language :: "string option"
  projectRules :: "string option"

record LlmSuggestion =
  suggestionMarkdown :: string
  rationale :: "string option"
  error :: "string option"

text \<open>
  The content of a model response: a string, or something else (on which
  \<^verbatim>\<open>responseText.match\<close> is not a function).
\<close>

datatype message_content = TextContent string | OtherContent

text \<open>
  The services are external and stateful. An operation takes the state of the world
  \<open>'w\<close> and returns the new one with its result; \<open>Inl\<close> is a thrown error. Of the
  version control service, the two operations that \<^verbatim>\<open>processComment\<close> calls.
\<close>

record 'w VersionControlService =
  getFileContent ::
    "PullRequestDetails \<Rightarrow> string \<Rightarrow> string option \<Rightarrow> 'w \<Rightarrow> (js_error + FileContent option) \<times> 'w"
  postSuggestionComment ::
    "PullRequestDetails \<Rightarrow> comment_id \<Rightarrow> string \<Rightarrow> string option \<Rightarrow> 'w \<Rightarrow> (js_error + unit) \<times> 'w"

record 'w LlmService =
  generateSuggestion :: "LlmPromptPayload \<Rightarrow> 'w \<Rightarrow> (js_error + LlmSuggestion) \<times> 'w"

section \<open>The suggestion generator (implementations/AzureOpenAiLlmService.ts)\<close>

text \<open>
  \<^verbatim>\<open>responseText.match(/```suggestion\n([\s\S]*?)\n```/)\<close>, its element 0. The match
  starts at the first opening fence and, the quantifier being lazy, ends with the first
  closing fence after it; when that opening fence has no closing fence after it, no later
  one has, and there is no match (see \<open>match_suggestion_iff\<close> below).
\<close>

definition fence_open :: string where
  "fence_open = ''```suggestion\<newline>''"

definition fence_close :: string where
  "fence_close = ''\<newline>```''"

definition match_suggestion :: "string \<Rightarrow> string option" where
  "match_suggestion text =
     (case indexOf text fence_open of
        None \<Rightarrow> None
      | Some i \<Rightarrow>
          (case indexOf (drop (i + length fence_open) text) fence_close of
             None \<Rightarrow> None
           | Some j \<Rightarrow>
               Some (take (length fence_open + j + length fence_close) (drop i text))))"

text \<open>
  \<^verbatim>\<open>responseText.match(/Rationale: (.*)/)\<close>, its group 1: the rest of the line after the
  first occurrence of \<^verbatim>\<open>Rationale: \<close> anywhere in the text.
\<close>

definition match_rationale :: "string \<Rightarrow> string option" where
  "match_rationale text =
     (case indexOf text ''Rationale: '' of
        None \<Rightarrow> None
      | Some i \<Rightarrow>
          Some (takeWhile (\<lambda>c. \<not> is_line_terminator c)
                  (drop (i + length ''Rationale: '') text)))"

text \<open>The prompt: the two template literals of \<^verbatim>\<open>generateSuggestion\<close>.\<close>

definition systemPrompt :: string where
  "systemPrompt = join_nl
    [''You are an expert software developer assisting with code reviews. Your task is to provide a code suggestion to address a reviewer's comment.'',
     ''Respond ONLY with a GitHub commit suggestion markdown block and a one-line rationale for the change.'',
     '''',
     ''The suggestion block should look like:'',
     ''```suggestion'',
     ''<new_code_here>'',
     ''```'',
     ''Rationale: <Your one-line rationale here>'',
     '''',
     ''If you cannot provide a suggestion or the request is unclear, respond with:'',
     ''```suggestion'',
     ''// No suggestion could be generated for this comment.'',
     ''```'',
     ''Rationale: <Brief reason why no suggestion could be made>'',
     '''']"

definition humanPromptContent :: "LlmPromptPayload \<Rightarrow> string" where
  "humanPromptContent payload =
     ''A reviewer has made the following comment:'' @ [CHR 0x0A, CHR 0x22] @
     reviewerComment payload @ [CHR 0x22, CHR 0x0A, CHR 0x0A] @
     ''Here is the relevant code context'' @
     (if truthy_str (promptFilePath payload)
      then '' from file `'' @ the (promptFilePath payload) @ ''`'' else []) @
     (if truthy_str (language payload)
      then '' (language: '' @ the (language payload) @ '')'' else []) @
     join_nl
       ['':'',
        ''--- start of extended code context ---'',
        codeContext payload,
        ''--- end of extended code context ---'',
        ''Here is the original code:'',
        ''--- start of exact original code lines ---'',
        originalCode payload,
        ''--- end of exact original code lines ---'',
        ''''] @
     (if truthy_str (projectRules payload)
      then join_nl
        ['''',
         ''Please ensure your suggestion complies with the following project rules:'',
         the (projectRules payload),
         '''']
      else []) @
     join_nl
       ['''',
        ''Based on the comment and the code, please provide a GitHub commit suggestion markdown block and a one-line rationale.'']"

definition fullPrompt :: "LlmPromptPayload \<Rightarrow> string" where
  "fullPrompt payload = systemPrompt @ [CHR 0x0A, CHR 0x0A] @ humanPromptContent payload"

text \<open>What the \<^verbatim>\<open>try\<close> block makes of a response text.\<close>

definition parseResponse :: "string \<Rightarrow> LlmSuggestion" where
  "parseResponse responseText =
     (case match_suggestion responseText of
        Some suggestionMatch \<Rightarrow>
          \<lparr>suggestionMarkdown = suggestionMatch,
           rationale = Some (case match_rationale responseText of
                               Some r \<Rightarrow> js_trim r
                             | None \<Rightarrow> ''No rationale provided.''),
           error = None\<rparr>
      | None \<Rightarrow>
          \<lparr>suggestionMarkdown =
             ''```suggestion\<newline>// LLM response was not in the expected format.\<newline>```'',
           rationale = Some ''Could not parse suggestion from LLM response.'',
           error = Some ''LLM response parsing failed.''\<rparr>)"

text \<open>
  The \<^verbatim>\<open>try\<close> block: \<open>invoke\<close> is \<^verbatim>\<open>this.llm.invoke\<close>, which may throw. Then the
  whole method, with its \<^verbatim>\<open>catch\<close>.
\<close>

definition generateSuggestion_try ::
  "(string \<Rightarrow> 'w \<Rightarrow> (js_error + message_content) \<times> 'w) \<Rightarrow> LlmPromptPayload \<Rightarrow> 'w
     \<Rightarrow> (js_error + LlmSuggestion) \<times> 'w" where
  "generateSuggestion_try invoke payload w =
     (case invoke (fullPrompt payload) w of
        (Inl e, w') \<Rightarrow> (Inl e, w')
      | (Inr OtherContent, w') \<Rightarrow> (Inl (Error ''responseText.match is not a function''), w')
      | (Inr (TextContent responseText), w') \<Rightarrow> (Inr (parseResponse responseText), w'))"

definition AzureOpenAiLlmService_generateSuggestion ::
  "(string \<Rightarrow> 'w \<Rightarrow> (js_error + message_content) \<times> 'w) \<Rightarrow> LlmPromptPayload \<Rightarrow> 'w
     \<Rightarrow> (js_error + LlmSuggestion) \<times> 'w" where
  "AzureOpenAiLlmService_generateSuggestion invoke payload w =
     (case generateSuggestion_try invoke payload w of
        (Inr result, w') \<Rightarrow> (Inr result, w')
      | (Inl e, w') \<Rightarrow>
          (Inr \<lparr>suggestionMarkdown =
                  ''```suggestion\<newline>// Error occurred while generating suggestion.\<newline>```'',
                rationale = Some ''Failed to generate suggestion due to an internal error.'',
                error = Some (if message e \<noteq> [] then message e
                              else ''Unknown error during LLM suggestion generation.'')\<rparr>, w'))"

definition AzureOpenAiLlmService ::
  "(string \<Rightarrow> 'w \<Rightarrow> (js_error + message_content) \<times> 'w) \<Rightarrow> 'w LlmService" where
  "AzureOpenAiLlmService invoke =
     \<lparr>generateSuggestion = AzureOpenAiLlmService_generateSuggestion invoke\<rparr>"

section \<open>The pipeline (main.ts)\<close>

text \<open>
  \<^verbatim>\<open>processComment\<close> returns nothing; its outcome is the return it leaves through:
  \<open>Skipped\<close> (no file path or line, or no code context), \<open>Failed\<close> (unusable suggestion,
  or the post threw) and \<open>Posted\<close>. The events are the calls of the services, each with
  its arguments and its result, in order.
\<close>

datatype outcome = Skipped | Posted | Failed

datatype event =
    GetFileContent string "string option" "js_error + FileContent option"
  | GenerateSuggestion LlmPromptPayload "js_error + LlmSuggestion"
  | PostSuggestionComment comment_id string "string option" "js_error + unit"


text \<open>
  \<^verbatim>\<open>async function processComment(comment, prDetails, vcsService, llmService)\<close>. The
  call of \<^verbatim>\<open>llmService.generateSuggestion\<close> stands outside every \<^verbatim>\<open>try\<close>: what it
  throws leaves the function (\<open>Inl\<close>).
\<close>

definition processComment ::
  "'w VersionControlService \<Rightarrow> 'w LlmService \<Rightarrow> PullRequestDetails \<Rightarrow> Comment \<Rightarrow> 'w
     \<Rightarrow> (js_error + outcome) \<times> event list \<times> 'w" where
  "processComment vcsService llmService prDetails comment w =
     (if \<not> truthy_str (filePath comment) \<or> \<not> truthy_num (endLineNumber comment)
      then (Inr Skipped, [], w)
      else
        let path = the (filePath comment);
            endLine = the (endLineNumber comment);
            (fetched, w1) = getFileContent vcsService prDetails path (headRef prDetails) w;
            ev1 = GetFileContent path (headRef prDetails) fetched;
            fileContent = (case fetched of Inl e \<Rightarrow> None | Inr fc \<Rightarrow> fc);
            codeContext = (case fileContent of
                             None \<Rightarrow> []
                           | Some fc \<Rightarrow> getCodeContext (content fc) endLine MAX_CONTEXT_LINES)
        in if codeContext = [] then (Inr Skipped, [ev1], w1)
           else
             let originalCode =
                   getOriginalCode
                     (case startLineNumber comment of None \<Rightarrow> endLine | Some s \<Rightarrow> s)
                     endLine (content (the fileContent));
                 llmPayload =
                   \<lparr>reviewerComment = body comment, codeContext = codeContext,
                    promptFilePath = Some path, originalCode = originalCode,
                    language = None, projectRules = None\<rparr>;
                 (generated, w2) = generateSuggestion llmService llmPayload w1;
                 ev2 = GenerateSuggestion llmPayload generated
             in case generated of
                  Inl e \<Rightarrow> (Inl e, [ev1, ev2], w2)
                | Inr suggestionResult \<Rightarrow>
                    if truthy_str (error suggestionResult) \<or>
                       \<not> includes_str (suggestionMarkdown suggestionResult) ''```suggestion''
                    then (Inr Failed, [ev1, ev2], w2)
                    else
                      let explanation =
                            (if truthy_str (rationale suggestionResult)
                             then Some (''Rationale: '' @ the (rationale suggestionResult))
                             else None);
                          (posted, w3) =
                            postSuggestionComment vcsService prDetails (commentId comment)
                              (suggestionMarkdown suggestionResult) explanation w2;
                          ev3 = PostSuggestionComment (commentId comment)
                                  (suggestionMarkdown suggestionResult) explanation posted
                      in case posted of
                           Inl e \<Rightarrow> (Inr Failed, [ev1, ev2, ev3], w3)
                         | Inr u \<Rightarrow> (Inr Posted, [ev1, ev2, ev3], w3))"

text \<open>
  The loop of \<^verbatim>\<open>main\<close> over the comments. An error that leaves \<^verbatim>\<open>processComment\<close>
  ends the loop (in \<^verbatim>\<open>main\<close> it reaches the outer \<^verbatim>\<open>catch\<close> and the process exits):
  the first component is that error.
\<close>

fun processComments ::
  "'w VersionControlService \<Rightarrow> 'w LlmService \<Rightarrow> PullRequestDetails \<Rightarrow> Comment list \<Rightarrow> 'w
     \<Rightarrow> js_error option \<times> outcome list \<times> event list \<times> 'w" where
  "processComments vcsService llmService prDetails [] w = (None, [], [], w)"
| "processComments vcsService llmService prDetails (comment # comments) w =
     (if truthy_str (filePath comment) \<and> truthy_num (endLineNumber comment) then
        (case processComment vcsService llmService prDetails comment w of
           (Inl e, evs, w') \<Rightarrow> (Some e, [], evs, w')
         | (Inr out, evs, w') \<Rightarrow>
             (case processComments vcsService llmService prDetails comments w' of
                (escaped, outs, evs', w'') \<Rightarrow> (escaped, out # outs, evs @ evs', w'')))
      else
        (case processComments vcsService llmService prDetails comments w of
           (escaped, outs, evs', w'') \<Rightarrow> (escaped, Skipped # outs, evs', w'')))"

section \<open>Posting (implementations/GitHubService.ts, implementations/GitLabService.ts)\<close>

text \<open>
  \<^verbatim>\<open>GitHubService.postSuggestionComment\<close>; \<open>createReplyForReviewComment\<close> is the
  platform call, which receives the body. The \<^verbatim>\<open>catch\<close> logs and rethrows.
\<close>

definition GitHubService_postSuggestionComment ::
  "(PullRequestDetails \<Rightarrow> comment_id \<Rightarrow> string \<Rightarrow> 'w \<Rightarrow> (js_error + unit) \<times> 'w)
     \<Rightarrow> PullRequestDetails \<Rightarrow> comment_id \<Rightarrow> string \<Rightarrow> string option \<Rightarrow> 'w
     \<Rightarrow> (js_error + unit) \<times> 'w" where
  "GitHubService_postSuggestionComment createReplyForReviewComment prDetails replyToCommentId
       suggestion explanation w =
     (let body = (if truthy_str explanation then the explanation @ CHR 0x0A # suggestion
                  else suggestion)
      in createReplyForReviewComment prDetails replyToCommentId body w)"

text \<open>\<^verbatim>\<open>"" + replyToCommentId\<close>: a number in decimal.\<close>

definition digit_char :: "nat \<Rightarrow> char" where
  "digit_char d = char_of (48 + d)"

function dec_nat :: "nat \<Rightarrow> string" where
  "dec_nat n = (if n < 10 then [digit_char n] else dec_nat (n div 10) @ [digit_char (n mod 10)])"
  by pat_completeness auto

termination
  by (relation "measure (\<lambda>n. n)") auto

declare dec_nat.simps [simp del]

definition id_to_string :: "comment_id \<Rightarrow> string" where
  "id_to_string i =
     (case i of
        IdString s \<Rightarrow> s
      | IdNumber n \<Rightarrow> (if n < 0 then CHR ''-'' # dec_nat (nat (- n)) else dec_nat (nat n)))"

text \<open>
  A discussion thread and its notes, as far as \<^verbatim>\<open>GitLabService.postSuggestionComment\<close>
  reads them; a position is opaque.
\<close>

record DiscussionNote =
  noteBody :: string
  position :: "string option"

record Discussion =
  threadNotes :: "DiscussionNote list option"

text \<open>
  \<^verbatim>\<open>GitLabService.postSuggestionComment\<close>; \<open>showDiscussion\<close> and \<open>createDiscussion\<close>
  are \<^verbatim>\<open>MergeRequestDiscussions.show\<close> and \<^verbatim>\<open>MergeRequestDiscussions.create\<close>. The
  test that chooses between the positioned discussion and the general one is
  \<^verbatim>\<open>if (originalDiscussionThread)\<close>, on a thread whose notes have been read already.
\<close>

definition GitLabService_postSuggestionComment ::
  "(string \<Rightarrow> int \<Rightarrow> string \<Rightarrow> 'w \<Rightarrow> (js_error + Discussion option) \<times> 'w)
     \<Rightarrow> (string \<Rightarrow> int \<Rightarrow> string \<Rightarrow> string option \<Rightarrow> 'w \<Rightarrow> (js_error + unit) \<times> 'w)
     \<Rightarrow> PullRequestDetails \<Rightarrow> comment_id \<Rightarrow> string \<Rightarrow> string option \<Rightarrow> 'w
     \<Rightarrow> (js_error + unit) \<times> 'w" where
  "GitLabService_postSuggestionComment showDiscussion createDiscussion prDetails replyToCommentId
       suggestion explanation w =
     (let discussionBody = (if truthy_str explanation
                            then the explanation @ CHR 0x0A # suggestion else suggestion)
      in case showDiscussion (repo prDetails) (pullNumber prDetails)
                (id_to_string replyToCommentId) w of
           (Inl e, w1) \<Rightarrow> (Inl e, w1)
         | (Inr originalDiscussionThread, w1) \<Rightarrow>
             (case originalDiscussionThread of
                None \<Rightarrow> (Inl (Error ''Cannot read properties of undefined (reading 'notes')''), w1)
              | Some thread \<Rightarrow>
                  (case (case threadNotes thread of None \<Rightarrow> None | Some ns \<Rightarrow>
                           (case ns of [] \<Rightarrow> None | n # rest \<Rightarrow> Some n)) of
                     None \<Rightarrow>
                       (Inl (Error (''No original discussion thread found for comment ID '' @
                                    id_to_string replyToCommentId @ ''.'')), w1)
                   | Some firstThreadNote \<Rightarrow>
                       let newDiscussionNote =
                             (if originalDiscussionThread \<noteq> None
                              then firstThreadNote\<lparr>position := position firstThreadNote\<rparr>
                              else firstThreadNote\<lparr>noteBody :=
                                     ''Replying to (or inspired by) comment ID '' @
                                     id_to_string replyToCommentId @ '':'' @
                                     CHR 0x0A # discussionBody\<rparr>)
                       in createDiscussion (repo prDetails) (pullNumber prDetails)
                            (noteBody newDiscussionNote) (position firstThreadNote) w1)))"

section \<open>Example services\<close>

text \<open>
  Concrete services for the scenarios: the world is the list of bodies that reached the
  platform; every file but \<^verbatim>\<open>missing.ts\<close> has the five lines a to e.
\<close>

definition example_pr :: PullRequestDetails where
  "example_pr = \<lparr>owner = ''octo'', repo = ''octo/demo'', pullNumber = 7,
                  headRef = Some ''feature'', baseRef = Some ''main''\<rparr>"

definition example_getFileContent ::
  "PullRequestDetails \<Rightarrow> string \<Rightarrow> string option \<Rightarrow> string list
     \<Rightarrow> (js_error + FileContent option) \<times> string list" where
  "example_getFileContent prDetails p r w =
     (if p = ''missing.ts'' then (Inl (Error ''Not Found''), w)
      else (Inr (Some \<lparr>path = p, content = ''a\<newline>b\<newline>c\<newline>d\<newline>e'',
                         encoding = Some ''utf-8''\<rparr>), w))"

definition example_createReply ::
  "PullRequestDetails \<Rightarrow> comment_id \<Rightarrow> string \<Rightarrow> string list \<Rightarrow> (js_error + unit) \<times> string list" where
  "example_createReply prDetails i b w = (Inr (), w @ [b])"

definition example_vcs :: "string list VersionControlService" where
  "example_vcs =
     \<lparr>getFileContent = example_getFileContent,
      postSuggestionComment = GitHubService_postSuggestionComment example_createReply\<rparr>"

definition example_invoke ::
  "string \<Rightarrow> string \<Rightarrow> string list \<Rightarrow> (js_error + message_content) \<times> string list" where
  "example_invoke responseText prompt w = (Inr (TextContent responseText), w)"

definition example_failing_invoke ::
  "string \<Rightarrow> string list \<Rightarrow> (js_error + message_content) \<times> string list" where
  "example_failing_invoke prompt w = (Inl (Error ''429 quota exceeded''), w)"

definition example_comment :: "string option \<Rightarrow> int option \<Rightarrow> Comment" where
  "example_comment p l =
     \<lparr>commentId = IdNumber 42, body = ''rename this'', filePath = p,
      endLineNumber = l, startLineNumber = None\<rparr>"

definition example_payload :: LlmPromptPayload where
  "example_payload =
     \<lparr>reviewerComment = ''rename this'', codeContext = ''a\<newline>b\<newline>c\<newline>d\<newline>e'',
      promptFilePath = Some ''a.ts'', originalCode = ''c'', language = None,
      projectRules = None\<rparr>"

definition example_showDiscussion ::
  "string \<Rightarrow> int \<Rightarrow> string \<Rightarrow> string list \<Rightarrow> (js_error + Discussion option) \<times> string list" where
  "example_showDiscussion project iid discussionId w =
     (Inr (Some \<lparr>threadNotes = Some [\<lparr>noteBody = ''please rename'', position = None\<rparr>]\<rparr>), w)"

definition example_createDiscussion ::
  "string \<Rightarrow> int \<Rightarrow> string \<Rightarrow> string option \<Rightarrow> string list \<Rightarrow> (js_error + unit) \<times> string list" where
  "example_createDiscussion project iid b pos w = (Inr (), w @ [b])"

lemmas pipeline_eval =
  processComment_def AzureOpenAiLlmService_def AzureOpenAiLlmService_generateSuggestion_def
  generateSuggestion_try_def parseResponse_def match_suggestion_def match_rationale_def
  fence_open_def fence_close_def includes_str_def truthy_str_def truthy_num_def
  getCodeContext_def getOriginalCode_def js_slice_def MAX_CONTEXT_LINES_def
  js_trim_def is_whitespace_def is_line_terminator_def
  example_vcs_def example_pr_def example_getFileContent_def example_createReply_def
  example_invoke_def example_failing_invoke_def example_comment_def
  GitHubService_postSuggestionComment_def

section \<open>Splitting and joining lines\<close>

lemma split_nl_nonempty: "split_nl s \<noteq> []"
  by (induction s) auto

lemma join_nl_Cons: "ls \<noteq> [] \<Longrightarrow> join_nl (l # ls) = l @ CHR 0x0A # join_nl ls"
  by (cases ls) auto

text \<open>Splitting loses nothing: joining the lines of a text gives the text back.\<close>

lemma join_split_nl: "join_nl (split_nl s) = s"
proof (induction s)
  case Nil
  show ?case by simp
next
  case (Cons c cs)
  obtain l ls where sp: "split_nl cs = l # ls"
    using split_nl_nonempty by (cases "split_nl cs") auto
  show ?case
  proof (cases "c = CHR 0x0A")
    case True
    with Cons show ?thesis by (simp add: join_nl_Cons split_nl_nonempty)
  next
    case False
    with Cons sp show ?thesis by (cases ls) auto
  qed
qed

lemma split_nl_lines_no_newline: "l \<in> set (split_nl s) \<Longrightarrow> CHR 0x0A \<notin> set l"
proof (induction s arbitrary: l)
  case Nil
  then show ?case by simp
next
  case (Cons c cs)
  obtain m ms where sp: "split_nl cs = m # ms"
    using split_nl_nonempty by (cases "split_nl cs") auto
  show ?case
  proof (cases "c = CHR 0x0A")
    case True
    with Cons show ?thesis by auto
  next
    case False
    with Cons.prems sp have "l = c # m \<or> l \<in> set ms" by auto
    with Cons.IH sp False show ?thesis by auto
  qed
qed

lemma split_nl_line: "CHR 0x0A \<notin> set l \<Longrightarrow> split_nl l = [l]"
  by (induction l) auto

lemma split_nl_append:
  "CHR 0x0A \<notin> set l \<Longrightarrow> split_nl (l @ CHR 0x0A # s) = l # split_nl s"
  by (induction l) auto

lemma split_join_nl:
  "ls \<noteq> [] \<Longrightarrow> (\<And>l. l \<in> set ls \<Longrightarrow> CHR 0x0A \<notin> set l) \<Longrightarrow> split_nl (join_nl ls) = ls"
proof (induction ls rule: join_nl.induct)
  case 1
  then show ?case by simp
next
  case (2 l)
  then show ?case by (simp add: split_nl_line)
next
  case (3 l m ls)
  then show ?case by (simp add: split_nl_append)
qed

subsection \<open>Slices within the array\<close>

lemma js_slice_nth:
  assumes "0 \<le> a" "a \<le> b" "b \<le> int (length xs)"
  shows "js_slice xs a b = map ((!) xs) [nat a ..< nat b]"
proof -
  have "take (nat (b - a)) (drop (nat a) xs) = map ((!) xs) [nat a ..< nat b]"
    using assms by (auto simp: list_eq_iff_nth_eq nat_diff_distrib)
  with assms show ?thesis by (simp add: js_slice_def Let_def min_def)
qed

lemma js_slice_inverted: "0 \<le> a \<Longrightarrow> 0 \<le> b \<Longrightarrow> b \<le> a \<Longrightarrow> js_slice xs a b = []"
  by (simp add: js_slice_def Let_def min_def)

subsection \<open>The window of \<open>getCodeContext\<close>\<close>

lemma getCodeContext_rejects:
  "fileText = [] \<or> targetLine \<le> 0 \<or> int (length (split_nl fileText)) < targetLine
     \<Longrightarrow> getCodeContext fileText targetLine windowSize = []"
  by (auto simp: getCodeContext_def Let_def)

lemma getCodeContext_in_range:
  assumes "0 \<le> windowSize" and "fileText \<noteq> []" and "1 \<le> targetLine"
    and "targetLine \<le> int (length (split_nl fileText))"
  shows "getCodeContext fileText targetLine windowSize =
           join_nl (map ((!) (split_nl fileText))
             [nat (max 0 (targetLine - 1 - windowSize)) ..<
              Suc (nat (min (int (length (split_nl fileText)) - 1)
                            (targetLine - 1 + windowSize)))])"
proof -
  define lines where "lines = split_nl fileText"
  define a where "a = max 0 (targetLine - 1 - windowSize)"
  define b where "b = min (int (length lines) - 1) (targetLine - 1 + windowSize)"
  from assms have ab: "0 \<le> a" "a \<le> b + 1" "b + 1 \<le> int (length lines)" "0 \<le> b"
    by (auto simp: a_def b_def lines_def)
  then have "js_slice lines a (b + 1) = map ((!) lines) [nat a ..< Suc (nat b)]"
    using js_slice_nth [of a "b + 1" lines] by (simp add: nat_add_distrib)
  with assms show ?thesis
    by (simp add: getCodeContext_def Let_def a_def b_def lines_def)
qed

section \<open>Claims about the context extractor\<close>

text \<open>
  C3. For a window size \<open>windowSize \<ge> 0\<close> (the extractor's input contract), any file
  text and any target line: \<open>getCodeContext\<close> returns the empty string when the file text
  is empty, when \<open>targetLine \<le> 0\<close>, and when \<open>targetLine\<close> exceeds the number of
  newline-separated lines; otherwise it returns the lines with zero-based indices from
  \<open>max 0 (targetLine - 1 - windowSize)\<close> through
  \<open>min (lineCount - 1) (targetLine - 1 + windowSize)\<close> inclusive, in their order and
  unchanged, joined by newline. The instance of the specification (lines a to e, target
  line 3, window 1, result lines b to d) is the witness.
\<close>

theorem getCodeContext_window:
  assumes "0 \<le> windowSize"
  shows "getCodeContext fileText targetLine windowSize =
    (let lines = split_nl fileText; lineCount = int (length lines) in
     if fileText = [] \<or> targetLine \<le> 0 \<or> lineCount < targetLine then []
     else join_nl (map ((!) lines)
            [nat (max 0 (targetLine - 1 - windowSize)) ..<
             Suc (nat (min (lineCount - 1) (targetLine - 1 + windowSize)))]))"
proof (cases "fileText = [] \<or> targetLine \<le> 0 \<or> int (length (split_nl fileText)) < targetLine")
  case True
  then show ?thesis
    using getCodeContext_rejects [of fileText targetLine windowSize]
    by (simp add: Let_def)
next
  case False
  then show ?thesis
    using getCodeContext_in_range [OF assms, of fileText targetLine]
    by (simp add: Let_def)
qed

theorem getCodeContext_window_witness:
  "(0::int) \<le> 1 \<and>
   getCodeContext ''a\<newline>b\<newline>c\<newline>d\<newline>e'' 3 1 = ''b\<newline>c\<newline>d''"
  using getCodeContext_window [of 1 "''a\<newline>b\<newline>c\<newline>d\<newline>e''" 3]
  by (simp add: getCodeContext_def js_slice_def)

text \<open>
  C4. For every \<open>windowSize \<ge> 0\<close> and every target line with
  \<open>1 \<le> targetLine \<le> lineCount\<close>, the string returned by \<open>getCodeContext\<close> consists of
  exactly \<open>min windowSize (targetLine - 1) + min windowSize (lineCount - targetLine) + 1\<close>
  newline-separated lines.
\<close>

theorem getCodeContext_line_count:
  assumes "0 \<le> windowSize" and "1 \<le> targetLine"
    and "targetLine \<le> int (length (split_nl fileText))"
  shows "int (length (split_nl (getCodeContext fileText targetLine windowSize))) =
           min windowSize (targetLine - 1) +
           min windowSize (int (length (split_nl fileText)) - targetLine) + 1"
proof (cases "fileText = []")
  case True
  with assms show ?thesis by (simp add: getCodeContext_def)
next
  case False
  define lines where "lines = split_nl fileText"
  define a where "a = max 0 (targetLine - 1 - windowSize)"
  define b where "b = min (int (length lines) - 1) (targetLine - 1 + windowSize)"
  define sl where "sl = map ((!) lines) [nat a ..< Suc (nat b)]"
  from assms have ab: "0 \<le> a" "a \<le> b" "b < int (length lines)"
    by (auto simp: a_def b_def lines_def)
  have res: "getCodeContext fileText targetLine windowSize = join_nl sl"
    using getCodeContext_in_range [OF assms(1) False assms(2,3)]
    by (simp add: sl_def a_def b_def lines_def)
  have len: "int (length sl) = b - a + 1"
    using ab by (simp add: sl_def)
  then have ne: "sl \<noteq> []" using ab by auto
  have "\<And>l. l \<in> set sl \<Longrightarrow> CHR 0x0A \<notin> set l"
  proof -
    fix l assume "l \<in> set sl"
    then have "l \<in> set lines" using ab by (auto simp: sl_def)
    then show "CHR 0x0A \<notin> set l"
      unfolding lines_def by (rule split_nl_lines_no_newline)
  qed
  with ne have "split_nl (join_nl sl) = sl" by (rule split_join_nl)
  with res len
  have "int (length (split_nl (getCodeContext fileText targetLine windowSize))) = b - a + 1"
    by simp
  also have "\<dots> = min windowSize (targetLine - 1) +
                    min windowSize (int (length lines) - targetLine) + 1"
    using assms by (auto simp: a_def b_def lines_def min_def max_def)
  finally show ?thesis by (simp add: lines_def)
qed

theorem getCodeContext_line_count_witness:
  "(0::int) \<le> 1 \<and> (1::int) \<le> 4 \<and>
   4 \<le> int (length (split_nl ''a\<newline>b\<newline>c\<newline>d\<newline>e'')) \<and>
   int (length (split_nl (getCodeContext ''a\<newline>b\<newline>c\<newline>d\<newline>e'' 4 1))) = 3"
  using getCodeContext_line_count [of 1 4 "''a\<newline>b\<newline>c\<newline>d\<newline>e''"]
  by simp

text \<open>
  C5. For every file text and every pair of 1-indexed line numbers, \<open>getOriginalCode\<close>
  returns the lines \<open>startLine .. endLine\<close> inclusive, unchanged and joined by newline,
  when \<open>1 \<le> startLine \<le> endLine \<le> lineCount\<close>; it returns the empty string when the
  range is out of range (\<open>startLine < 1\<close> or \<open>endLine > lineCount\<close>, as the windowed
  context does) and when the pair is inverted; and for \<open>startLine = endLine\<close> in range it
  returns exactly that line.
\<close>

theorem getOriginalCode_slice:
  "(let lines = split_nl fileText; lineCount = int (length lines) in
     (1 \<le> startLine \<and> startLine \<le> endLine \<and> endLine \<le> lineCount \<longrightarrow>
        getOriginalCode startLine endLine fileText =
          join_nl (map ((!) lines) [nat (startLine - 1) ..< nat endLine])) \<and>
     (startLine < 1 \<or> lineCount < endLine \<longrightarrow>
        getOriginalCode startLine endLine fileText = []) \<and>
     (1 \<le> endLine \<and> endLine < startLine \<longrightarrow>
        getOriginalCode startLine endLine fileText = []) \<and>
     (1 \<le> startLine \<and> startLine \<le> lineCount \<longrightarrow>
        getOriginalCode startLine startLine fileText = lines ! nat (startLine - 1)))"
proof -
  define lines where "lines = split_nl fileText"
  have in_range: "getOriginalCode s e fileText = join_nl (map ((!) lines) [nat (s - 1) ..< nat e])"
    if "1 \<le> s" "s \<le> e" "e \<le> int (length lines)" for s e
  proof -
    have "js_slice lines (s - 1) e = map ((!) lines) [nat (s - 1) ..< nat e]"
      using that by (intro js_slice_nth) auto
    with that show ?thesis by (simp add: getOriginalCode_def lines_def)
  qed
  have out: "getOriginalCode startLine endLine fileText = []"
    if "startLine < 1 \<or> int (length lines) < endLine"
    using that by (auto simp: getOriginalCode_def lines_def)
  have inv: "getOriginalCode startLine endLine fileText = []"
    if "1 \<le> endLine" "endLine < startLine"
    using that js_slice_inverted [of "startLine - 1" endLine lines]
    by (simp add: getOriginalCode_def lines_def Let_def)
  have one: "getOriginalCode startLine startLine fileText = lines ! nat (startLine - 1)"
    if "1 \<le> startLine" "startLine \<le> int (length lines)"
  proof -
    have "[nat (startLine - 1) ..< nat startLine] = [nat (startLine - 1)]"
      using that by (simp add: upt_rec nat_diff_distrib)
    with in_range [of startLine startLine] that show ?thesis by simp
  qed
  from in_range [of startLine endLine] out inv one show ?thesis
    by (simp add: Let_def lines_def)
qed

theorem getOriginalCode_slice_witness:
  "getOriginalCode 2 3 ''a\<newline>b\<newline>c'' = ''b\<newline>c'' \<and>
   getOriginalCode 0 2 ''a\<newline>b\<newline>c'' = [] \<and>
   getOriginalCode 2 4 ''a\<newline>b\<newline>c'' = [] \<and>
   getOriginalCode 3 2 ''a\<newline>b\<newline>c'' = [] \<and>
   getOriginalCode 2 2 ''a\<newline>b\<newline>c'' = ''b''"
  using getOriginalCode_slice [where startLine = 2 and endLine = 3
      and fileText = "''a\<newline>b\<newline>c''"]
    getOriginalCode_slice [where startLine = 0 and endLine = 2
      and fileText = "''a\<newline>b\<newline>c''"]
    getOriginalCode_slice [where startLine = 2 and endLine = 4
      and fileText = "''a\<newline>b\<newline>c''"]
    getOriginalCode_slice [where startLine = 3 and endLine = 2
      and fileText = "''a\<newline>b\<newline>c''"]
    getOriginalCode_slice [where startLine = 2 and endLine = 2
      and fileText = "''a\<newline>b\<newline>c''"]
  by (simp add: Let_def eval_nat_numeral)

section \<open>Searching a string\<close>

lemma indexOf_SomeD:
  "indexOf s n = Some i \<Longrightarrow> i \<le> length s \<and> prefix n (drop i s) \<and> (\<forall>j<i. \<not> prefix n (drop j s))"
proof (induction s arbitrary: i)
  case Nil
  then show ?case by (auto split: if_splits)
next
  case (Cons c cs)
  show ?case
  proof (cases "prefix n (c # cs)")
    case True
    with Cons.prems show ?thesis by simp
  next
    case False
    with Cons.prems obtain k where k: "indexOf cs n = Some k" "i = Suc k" by auto
    from Cons.IH [OF k(1)] have ih: "k \<le> length cs" "prefix n (drop k cs)"
      "\<forall>j<k. \<not> prefix n (drop j cs)" by auto
    have "\<not> prefix n (drop j (c # cs))" if "j < i" for j
      using that False ih(3) k(2) by (cases j) auto
    with ih k show ?thesis by auto
  qed
qed

lemma indexOf_NoneD: "indexOf s n = None \<Longrightarrow> \<not> prefix n (drop j s)"
proof (induction s arbitrary: j)
  case Nil
  then show ?case by (auto split: if_splits)
next
  case (Cons c cs)
  then show ?case by (cases j) (auto split: if_splits)
qed

lemma indexOf_first:
  "prefix n (drop i s) \<Longrightarrow> i \<le> length s \<Longrightarrow> (\<And>j. j < i \<Longrightarrow> \<not> prefix n (drop j s)) \<Longrightarrow> indexOf s n = Some i"
proof (cases "indexOf s n")
  case None
  assume "prefix n (drop i s)"
  with indexOf_NoneD [OF None] show ?thesis by blast
next
  case (Some k)
  assume a: "prefix n (drop i s)" "i \<le> length s" "\<And>j. j < i \<Longrightarrow> \<not> prefix n (drop j s)"
  from indexOf_SomeD [OF Some] have "prefix n (drop k s)" "\<forall>j<k. \<not> prefix n (drop j s)" by auto
  with a have "k = i" by (meson linorder_neqE_nat)
  with Some show ?thesis by simp
qed

lemma prefix_includes_str: "prefix n s \<Longrightarrow> includes_str s n"
  by (cases s) (auto simp: includes_str_def)


lemma prefix_append_long: "length n \<le> length x \<Longrightarrow> prefix n (x @ r) = prefix n x"
  by (auto simp: prefix_append)

lemma indexOf_extend:
  assumes "indexOf (a @ n) n = Some (length a)"
  shows "indexOf (a @ n @ r) n = Some (length a)"
proof (rule indexOf_first)
  show "prefix n (drop (length a) (a @ n @ r))" by simp
  show "length a \<le> length (a @ n @ r)" by simp
next
  fix j assume j: "j < length a"
  from indexOf_SomeD [OF assms] j have "\<not> prefix n (drop j (a @ n))" by blast
  moreover have "drop j (a @ n @ r) = drop j (a @ n) @ r" using j by simp
  moreover have "length n \<le> length (drop j (a @ n))" using j by simp
  ultimately show "\<not> prefix n (drop j (a @ n @ r))"
    using prefix_append_long [of n "drop j (a @ n)" r] by simp
qed

section \<open>Parsing the model's response\<close>

text \<open>
  The fenced block of a response whose first opening fence is the block's and whose first
  closing fence after it is the block's.
\<close>

lemma match_suggestion_block:
  assumes "indexOf (pre @ fence_open) fence_open = Some (length pre)"
    and "indexOf (code @ fence_close) fence_close = Some (length code)"
  shows "match_suggestion (pre @ fence_open @ code @ fence_close @ rest) =
           Some (fence_open @ code @ fence_close)"
proof -
  have 1: "indexOf (pre @ fence_open @ code @ fence_close @ rest) fence_open = Some (length pre)"
    using assms(1) by (rule indexOf_extend)
  have 2: "indexOf (code @ fence_close @ rest) fence_close = Some (length code)"
    using assms(2) by (rule indexOf_extend)
  show ?thesis
    by (simp add: match_suggestion_def 1 2)
qed

lemma match_rationale_line:
  assumes "indexOf (a @ ''Rationale: '') ''Rationale: '' = Some (length a)"
  shows "match_rationale (a @ ''Rationale: '' @ tail) =
           Some (takeWhile (\<lambda>c. \<not> is_line_terminator c) tail)"
proof -
  have "indexOf (a @ ''Rationale: '' @ tail) ''Rationale: '' = Some (length a)"
    using assms by (rule indexOf_extend)
  then show ?thesis by (simp add: match_rationale_def)
qed

lemma match_suggestion_marker:
  assumes "match_suggestion text = Some m"
  shows "includes_str m ''```suggestion''"
proof -
  from assms obtain i j where i: "indexOf text fence_open = Some i"
    and m: "m = take (length fence_open + j + length fence_close) (drop i text)"
    by (auto simp: match_suggestion_def split: option.splits)
  from indexOf_SomeD [OF i] have "prefix fence_open (drop i text)" by blast
  then obtain r where "drop i text = fence_open @ r" by (auto simp: prefix_def)
  with m have "prefix fence_open m" by simp
  then have "prefix ''```suggestion'' m" by (auto simp: fence_open_def prefix_def)
  then show ?thesis by (rule prefix_includes_str)
qed


lemma parseResponse_no_block:
  "match_suggestion responseText = None \<Longrightarrow>
     parseResponse responseText =
       \<lparr>suggestionMarkdown =
          ''```suggestion\<newline>// LLM response was not in the expected format.\<newline>```'',
        rationale = Some ''Could not parse suggestion from LLM response.'',
        error = Some ''LLM response parsing failed.''\<rparr>"
  by (simp add: parseResponse_def)

lemma parseResponse_marker:
  "includes_str (suggestionMarkdown (parseResponse responseText)) ''```suggestion''"
proof (cases "match_suggestion responseText")
  case None
  then show ?thesis by (simp add: parseResponse_no_block includes_str_def)
next
  case (Some m)
  then show ?thesis by (simp add: parseResponse_def match_suggestion_marker)
qed

lemma parseResponse_error_iff:
  "truthy_str (error (parseResponse responseText)) \<longleftrightarrow> match_suggestion responseText = None"
  by (cases "match_suggestion responseText") (simp_all add: parseResponse_def truthy_str_def)

lemma parseResponse_well_formed:
  assumes "indexOf (pre @ fence_open) fence_open = Some (length pre)"
    and "indexOf (code @ fence_close) fence_close = Some (length code)"
    and "indexOf (pre @ fence_open @ code @ fence_close @ mid @ ''Rationale: '') ''Rationale: '' =
           Some (length (pre @ fence_open @ code @ fence_close @ mid))"
  shows "parseResponse (pre @ fence_open @ code @ fence_close @ mid @ ''Rationale: '' @ tail) =
           \<lparr>suggestionMarkdown = fence_open @ code @ fence_close,
            rationale = Some (js_trim (takeWhile (\<lambda>c. \<not> is_line_terminator c) tail)),
            error = None\<rparr>"
proof -
  have m: "match_suggestion (pre @ fence_open @ code @ fence_close @ mid @ ''Rationale: '' @ tail) =
             Some (fence_open @ code @ fence_close)"
    using assms(1,2) by (rule match_suggestion_block)
  have "match_rationale ((pre @ fence_open @ code @ fence_close @ mid) @ ''Rationale: '' @ tail) =
          Some (takeWhile (\<lambda>c. \<not> is_line_terminator c) tail)"
    by (rule match_rationale_line) (use assms(3) in simp)
  then have r: "match_rationale
      (pre @ fence_open @ code @ fence_close @ mid @ ''Rationale: '' @ tail) =
          Some (takeWhile (\<lambda>c. \<not> is_line_terminator c) tail)"
    by simp
  show ?thesis
    unfolding parseResponse_def m r by simp
qed



subsection \<open>The generator\<close>

lemma azure_never_throws:
  "\<exists>s w'. AzureOpenAiLlmService_generateSuggestion invoke payload w = (Inr s, w')"
  by (auto simp: AzureOpenAiLlmService_generateSuggestion_def split: prod.splits sum.splits)

lemma azure_text_response:
  "invoke (fullPrompt payload) w = (Inr (TextContent responseText), w') \<Longrightarrow>
   AzureOpenAiLlmService_generateSuggestion invoke payload w = (Inr (parseResponse responseText), w')"
  by (simp add: AzureOpenAiLlmService_generateSuggestion_def generateSuggestion_try_def)

lemma azure_transport_failure:
  "invoke (fullPrompt payload) w = (Inl e, w') \<Longrightarrow>
   AzureOpenAiLlmService_generateSuggestion invoke payload w =
     (Inr \<lparr>suggestionMarkdown =
             ''```suggestion\<newline>// Error occurred while generating suggestion.\<newline>```'',
           rationale = Some ''Failed to generate suggestion due to an internal error.'',
           error = Some (if message e \<noteq> [] then message e
                         else ''Unknown error during LLM suggestion generation.'')\<rparr>, w')"
  by (simp add: AzureOpenAiLlmService_generateSuggestion_def generateSuggestion_try_def)


section \<open>One comment\<close>

lemma processComment_ineligible:
  "\<not> (truthy_str (filePath c) \<and> truthy_num (endLineNumber c))
     \<Longrightarrow> processComment vcs llm pr c w = (Inr Skipped, [], w)"
  by (simp add: processComment_def)


lemma processComment_posts:
  assumes "processComment vcs llm pr c w = (res, evs, w')"
    and "GenerateSuggestion payload (Inr sr) \<in> set evs"
    and "\<not> truthy_str (error sr)"
    and "includes_str (suggestionMarkdown sr) ''```suggestion''"
  shows "\<exists>posted. PostSuggestionComment (commentId c) (suggestionMarkdown sr)
           (if truthy_str (rationale sr) then Some (''Rationale: '' @ the (rationale sr))
            else None) posted \<in> set evs"
  using assms
  by (auto simp: processComment_def Let_def split: if_splits prod.splits sum.splits option.splits)

lemma processComment_azure_total:
  "\<exists>out evs w'. processComment vcs (AzureOpenAiLlmService invoke) pr c w = (Inr out, evs, w')"
proof -
  have "\<And>p u. \<exists>s u'. generateSuggestion (AzureOpenAiLlmService invoke) p u = (Inr s, u')"
    using azure_never_throws by (simp add: AzureOpenAiLlmService_def)
  then show ?thesis
    apply (simp add: processComment_def Let_def split: if_splits prod.splits sum.splits option.splits)
    by (metis Inl_Inr_False old.prod.inject)
qed



section \<open>The loop over the comments\<close>

lemma processComments_step_eligible:
  "truthy_str (filePath c) \<Longrightarrow> truthy_num (endLineNumber c) \<Longrightarrow>
   processComments vcs llm pr (c # cs) w =
     (case processComment vcs llm pr c w of
        (Inl e, evs, w') \<Rightarrow> (Some e, [], evs, w')
      | (Inr out, evs, w') \<Rightarrow>
          (case processComments vcs llm pr cs w' of
             (escaped, outs, evs', w'') \<Rightarrow> (escaped, out # outs, evs @ evs', w'')))"
  by simp

lemma processComments_step_ineligible:
  "\<not> (truthy_str (filePath c) \<and> truthy_num (endLineNumber c)) \<Longrightarrow>
   processComments vcs llm pr (c # cs) w =
     (case processComments vcs llm pr cs w of
        (escaped, outs, evs', w'') \<Rightarrow> (escaped, Skipped # outs, evs', w''))"
  by (cases "truthy_str (filePath c)"; cases "truthy_num (endLineNumber c)")
     (simp_all split: prod.splits)

declare processComments.simps(2) [simp del]

lemma processComments_azure_total:
  "\<exists>outs evs w'. processComments vcs (AzureOpenAiLlmService invoke) pr cs w = (None, outs, evs, w')
      \<and> length outs = length cs"
proof (induction cs arbitrary: w)
  case Nil
  show ?case by simp
next
  case (Cons c cs)
  show ?case
  proof (cases "truthy_str (filePath c) \<and> truthy_num (endLineNumber c)")
    case True
    obtain out evs w1 where
      one: "processComment vcs (AzureOpenAiLlmService invoke) pr c w = (Inr out, evs, w1)"
      using processComment_azure_total [of vcs invoke pr c w] by auto
    from Cons [of w1] obtain outs evs' w2 where
      "processComments vcs (AzureOpenAiLlmService invoke) pr cs w1 = (None, outs, evs', w2)"
      "length outs = length cs" by auto
    with True one show ?thesis by (simp add: processComments_step_eligible)
  next
    case False
    from Cons [of w] obtain outs evs' w2 where
      "processComments vcs (AzureOpenAiLlmService invoke) pr cs w = (None, outs, evs', w2)"
      "length outs = length cs" by auto
    with False show ?thesis by (simp add: processComments_step_ineligible)
  qed
qed

lemma processComments_append:
  "processComments vcs llm pr cs1 w = (None, outs1, evs1, w1) \<Longrightarrow>
   processComments vcs llm pr cs2 w1 = (x, outs2, evs2, w2) \<Longrightarrow>
   processComments vcs llm pr (cs1 @ cs2) w = (x, outs1 @ outs2, evs1 @ evs2, w2)"
proof (induction cs1 arbitrary: w outs1 evs1)
  case Nil
  then show ?case by simp
next
  case (Cons c cs)
  show ?case
  proof (cases "truthy_str (filePath c) \<and> truthy_num (endLineNumber c)")
    case True
    with Cons.prems(1) obtain out evs wa outs' evs' where
      one: "processComment vcs llm pr c w = (Inr out, evs, wa)"
      and rest: "processComments vcs llm pr cs wa = (None, outs', evs', w1)"
      and eq: "outs1 = out # outs'" "evs1 = evs @ evs'"
      by (auto simp: processComments_step_eligible split: prod.splits sum.splits)
    from Cons.IH [OF rest Cons.prems(2)] True one eq show ?thesis
      by (simp add: processComments_step_eligible)
  next
    case False
    with Cons.prems(1) obtain outs' where
      rest: "processComments vcs llm pr cs w = (None, outs', evs1, w1)"
      and eq: "outs1 = Skipped # outs'"
      by (auto simp: processComments_step_ineligible split: prod.splits)
    from Cons.IH [OF rest Cons.prems(2)] False eq show ?thesis
      by (simp add: processComments_step_ineligible)
  qed
qed

section \<open>Posting\<close>

lemma GitHub_body:
  "GitHubService_postSuggestionComment createReply pr i suggestion explanation u =
     createReply pr i
       (case explanation of None \<Rightarrow> suggestion
        | Some l \<Rightarrow> if l = [] then suggestion else l @ CHR 0x0A # suggestion) u"
  by (simp add: GitHubService_postSuggestionComment_def truthy_str_def split: option.splits)

lemma GitLab_first_note:
  assumes "showDiscussion (repo prDetails) (pullNumber prDetails)
             (id_to_string replyToCommentId) w = (Inr (Some thread), w1)"
    and "threadNotes thread = Some (firstThreadNote # others)"
  shows "GitLabService_postSuggestionComment showDiscussion createDiscussion prDetails
           replyToCommentId suggestion explanation w =
         createDiscussion (repo prDetails) (pullNumber prDetails)
           (noteBody firstThreadNote) (position firstThreadNote) w1"
  using assms by (simp add: GitLabService_postSuggestionComment_def Let_def)

section \<open>The scenarios, run\<close>


lemma example_run_posted:
  "processComment example_vcs
     (AzureOpenAiLlmService (example_invoke ''```suggestion\<newline>B\<newline>```\<newline>Rationale: rename''))
     example_pr (example_comment (Some ''a.ts'') (Some 3)) w =
   (Inr Posted,
    [GetFileContent ''a.ts'' (Some ''feature'')
       (Inr (Some \<lparr>path = ''a.ts'', content = ''a\<newline>b\<newline>c\<newline>d\<newline>e'',
                    encoding = Some ''utf-8''\<rparr>)),
     GenerateSuggestion
       \<lparr>reviewerComment = ''rename this'', codeContext = ''a\<newline>b\<newline>c\<newline>d\<newline>e'',
        promptFilePath = Some ''a.ts'', originalCode = ''c'', language = None,
        projectRules = None\<rparr>
       (Inr \<lparr>suggestionMarkdown = ''```suggestion\<newline>B\<newline>```'',
              rationale = Some ''rename'', error = None\<rparr>),
     PostSuggestionComment (IdNumber 42) ''```suggestion\<newline>B\<newline>```''
       (Some ''Rationale: rename'') (Inr ())],
    w @ [''Rationale: rename\<newline>```suggestion\<newline>B\<newline>```''])"
  by (simp add: pipeline_eval Let_def)

lemma example_run_read_fails:
  "processComment example_vcs llm example_pr (example_comment (Some ''missing.ts'') (Some 3)) w =
   (Inr Skipped, [GetFileContent ''missing.ts'' (Some ''feature'') (Inl (Error ''Not Found''))], w)"
  by (simp add: pipeline_eval Let_def)

lemma example_batch:
  "processComments example_vcs
     (AzureOpenAiLlmService (example_invoke ''```suggestion\<newline>B\<newline>```\<newline>Rationale: rename''))
     example_pr
     [example_comment (Some ''missing.ts'') (Some 3), example_comment (Some ''a.ts'') (Some 3)]
     [] =
   (None, [Skipped, Posted],
    [GetFileContent ''missing.ts'' (Some ''feature'') (Inl (Error ''Not Found'')),
     GetFileContent ''a.ts'' (Some ''feature'')
       (Inr (Some \<lparr>path = ''a.ts'', content = ''a\<newline>b\<newline>c\<newline>d\<newline>e'',
                    encoding = Some ''utf-8''\<rparr>)),
     GenerateSuggestion
       \<lparr>reviewerComment = ''rename this'', codeContext = ''a\<newline>b\<newline>c\<newline>d\<newline>e'',
        promptFilePath = Some ''a.ts'', originalCode = ''c'', language = None,
        projectRules = None\<rparr>
       (Inr \<lparr>suggestionMarkdown = ''```suggestion\<newline>B\<newline>```'',
              rationale = Some ''rename'', error = None\<rparr>),
     PostSuggestionComment (IdNumber 42) ''```suggestion\<newline>B\<newline>```''
       (Some ''Rationale: rename'') (Inr ())],
    [''Rationale: rename\<newline>```suggestion\<newline>B\<newline>```''])"
proof -
  have e: "truthy_str (filePath (example_comment (Some ''missing.ts'') (Some 3)))"
    "truthy_num (endLineNumber (example_comment (Some ''missing.ts'') (Some 3)))"
    "truthy_str (filePath (example_comment (Some ''a.ts'') (Some 3)))"
    "truthy_num (endLineNumber (example_comment (Some ''a.ts'') (Some 3)))"
    by (simp_all add: example_comment_def truthy_str_def truthy_num_def)
  show ?thesis
    by (simp add: processComments_step_eligible e example_run_posted example_run_read_fails)
qed

section \<open>Claims about the pipeline\<close>



text \<open>
  C2. Each comment's run is isolated. With the generator that \<^verbatim>\<open>main\<close> constructs, for
  every batch \<open>before @ comment # after\<close>, every version control service and every
  behaviour of the model: no error leaves the loop, every comment gets its outcome, and
  \<open>comment\<close> and the comments after it are processed whatever happened before them, each
  from the state its predecessors left. The witness is the specification's scenario D: the
  first comment's file read throws, the second is processed, the outcomes are \<open>Skipped\<close>
  and \<open>Posted\<close>.
\<close>

theorem batch_isolation:
  "\<exists>outs1 evs1 w1 out evs2 w2 outs3 evs3 w3.
     processComments vcsService (AzureOpenAiLlmService invoke) prDetails before w =
       (None, outs1, evs1, w1) \<and> length outs1 = length before \<and>
     processComments vcsService (AzureOpenAiLlmService invoke) prDetails [comment] w1 =
       (None, [out], evs2, w2) \<and>
     processComments vcsService (AzureOpenAiLlmService invoke) prDetails after w2 =
       (None, outs3, evs3, w3) \<and> length outs3 = length after \<and>
     processComments vcsService (AzureOpenAiLlmService invoke) prDetails
         (before @ comment # after) w =
       (None, outs1 @ out # outs3, evs1 @ evs2 @ evs3, w3)"
proof -
  let ?run = "processComments vcsService (AzureOpenAiLlmService invoke) prDetails"
  obtain outs1 evs1 w1 where 1: "?run before w = (None, outs1, evs1, w1)"
    and l1: "length outs1 = length before"
    using processComments_azure_total [of vcsService invoke prDetails before w] by auto
  obtain outs2 evs2 w2 where 2: "?run [comment] w1 = (None, outs2, evs2, w2)"
    and l2: "length outs2 = length [comment]"
    using processComments_azure_total [of vcsService invoke prDetails "[comment]" w1] by auto
  from l2 obtain out where o: "outs2 = [out]" by (cases outs2) auto
  obtain outs3 evs3 w3 where 3: "?run after w2 = (None, outs3, evs3, w3)"
    and l3: "length outs3 = length after"
    using processComments_azure_total [of vcsService invoke prDetails after w2] by auto
  from processComments_append [OF 2 3] o
  have 23: "?run (comment # after) w1 = (None, out # outs3, evs2 @ evs3, w3)" by simp
  from processComments_append [OF 1 23]
  have "?run (before @ comment # after) w = (None, outs1 @ out # outs3, evs1 @ evs2 @ evs3, w3)"
    by simp
  with 1 l1 2 o 3 l3 show ?thesis by blast
qed

theorem batch_isolation_witness:
  "processComments example_vcs
     (AzureOpenAiLlmService (example_invoke ''```suggestion\<newline>B\<newline>```\<newline>Rationale: rename''))
     example_pr
     ([] @ example_comment (Some ''missing.ts'') (Some 3) #
        [example_comment (Some ''a.ts'') (Some 3)])
     [] =
   (None, [Skipped, Posted],
    [GetFileContent ''missing.ts'' (Some ''feature'') (Inl (Error ''Not Found'')),
     GetFileContent ''a.ts'' (Some ''feature'')
       (Inr (Some \<lparr>path = ''a.ts'', content = ''a\<newline>b\<newline>c\<newline>d\<newline>e'',
                    encoding = Some ''utf-8''\<rparr>)),
     GenerateSuggestion
       \<lparr>reviewerComment = ''rename this'', codeContext = ''a\<newline>b\<newline>c\<newline>d\<newline>e'',
        promptFilePath = Some ''a.ts'', originalCode = ''c'', language = None,
        projectRules = None\<rparr>
       (Inr \<lparr>suggestionMarkdown = ''```suggestion\<newline>B\<newline>```'',
              rationale = Some ''rename'', error = None\<rparr>),
     PostSuggestionComment (IdNumber 42) ''```suggestion\<newline>B\<newline>```''
       (Some ''Rationale: rename'') (Inr ())],
    [''Rationale: rename\<newline>```suggestion\<newline>B\<newline>```''])"
  using batch_isolation [of example_vcs
      "example_invoke ''```suggestion\<newline>B\<newline>```\<newline>Rationale: rename''" example_pr
      "[]" "[]" "example_comment (Some ''missing.ts'') (Some 3)"
      "[example_comment (Some ''a.ts'') (Some 3)]"]
  by (simp only: example_batch append_Nil)

text \<open>
  C6. A comment that lacks a file path or an end line number (or whose file path is empty
  or whose end line number is 0, which the same test rejects) ends in \<open>Skipped\<close> with no
  call of any service, whether \<open>processComment\<close> receives it or the loop of \<^verbatim>\<open>main\<close>
  meets it. The witness is the specification's scenario B.
\<close>

theorem ineligible_comment_skipped:
  assumes "filePath comment = None \<or> endLineNumber comment = None \<or>
           filePath comment = Some [] \<or> endLineNumber comment = Some 0"
  shows "processComment vcsService llmService prDetails comment w = (Inr Skipped, [], w) \<and>
         processComments vcsService llmService prDetails (comment # comments) w =
           (case processComments vcsService llmService prDetails comments w of
              (escaped, outs, evs, w') \<Rightarrow> (escaped, Skipped # outs, evs, w'))"
proof -
  from assms have "\<not> (truthy_str (filePath comment) \<and> truthy_num (endLineNumber comment))"
    by (auto simp: truthy_str_def truthy_num_def)
  then show ?thesis
    by (simp add: processComment_ineligible processComments_step_ineligible)
qed

theorem ineligible_comment_skipped_witness:
  "filePath (example_comment None (Some 5)) = None \<and>
   processComment example_vcs (AzureOpenAiLlmService (example_invoke ''ok'')) example_pr
     (example_comment None (Some 5)) [] = (Inr Skipped, [], []) \<and>
   processComments example_vcs (AzureOpenAiLlmService (example_invoke ''ok'')) example_pr
     [example_comment None (Some 5)] [] = (None, [Skipped], [], [])"
  using ineligible_comment_skipped [of "example_comment None (Some 5)" example_vcs
      "AzureOpenAiLlmService (example_invoke ''ok'')" example_pr "[]" "[]"]
  by (simp add: example_comment_def)

section \<open>Claims about the generator\<close>

text \<open>
  C7. For every payload, \<open>generateSuggestion\<close> of the Azure service returns a result and
  throws nothing. A received response text without a fenced suggestion block gives the
  placeholder suggestion, the fixed rationale that says the response could not be parsed
  (nothing of the model's) and a populated error; a transport failure is caught and gives
  a result whose error is the failure's message, or a fixed text when it has none.
\<close>

theorem generateSuggestion_never_throws:
  "(\<exists>s w'. AzureOpenAiLlmService_generateSuggestion invoke payload w = (Inr s, w')) \<and>
   (\<forall>responseText w'.
      invoke (fullPrompt payload) w = (Inr (TextContent responseText), w') \<and>
      match_suggestion responseText = None \<longrightarrow>
      AzureOpenAiLlmService_generateSuggestion invoke payload w =
        (Inr \<lparr>suggestionMarkdown =
                ''```suggestion\<newline>// LLM response was not in the expected format.\<newline>```'',
              rationale = Some ''Could not parse suggestion from LLM response.'',
              error = Some ''LLM response parsing failed.''\<rparr>, w')) \<and>
   (\<forall>e w'.
      invoke (fullPrompt payload) w = (Inl e, w') \<longrightarrow>
      (\<exists>s. AzureOpenAiLlmService_generateSuggestion invoke payload w = (Inr s, w') \<and>
           suggestionMarkdown s =
             ''```suggestion\<newline>// Error occurred while generating suggestion.\<newline>```'' \<and>
           rationale s = Some ''Failed to generate suggestion due to an internal error.'' \<and>
           error s = Some (if message e \<noteq> [] then message e
                           else ''Unknown error during LLM suggestion generation.'') \<and>
           truthy_str (error s)))"
proof (intro conjI allI impI)
  show "\<exists>s w'. AzureOpenAiLlmService_generateSuggestion invoke payload w = (Inr s, w')"
    by (rule azure_never_throws)
next
  fix responseText w'
  assume "invoke (fullPrompt payload) w = (Inr (TextContent responseText), w') \<and>
          match_suggestion responseText = None"
  then show "AzureOpenAiLlmService_generateSuggestion invoke payload w =
        (Inr \<lparr>suggestionMarkdown =
                ''```suggestion\<newline>// LLM response was not in the expected format.\<newline>```'',
              rationale = Some ''Could not parse suggestion from LLM response.'',
              error = Some ''LLM response parsing failed.''\<rparr>, w')"
    by (simp add: azure_text_response parseResponse_no_block)
next
  fix e w'
  assume "invoke (fullPrompt payload) w = (Inl e, w')"
  then show "\<exists>s. AzureOpenAiLlmService_generateSuggestion invoke payload w = (Inr s, w') \<and>
           suggestionMarkdown s =
             ''```suggestion\<newline>// Error occurred while generating suggestion.\<newline>```'' \<and>
           rationale s = Some ''Failed to generate suggestion due to an internal error.'' \<and>
           error s = Some (if message e \<noteq> [] then message e
                           else ''Unknown error during LLM suggestion generation.'') \<and>
           truthy_str (error s)"
    by (simp add: azure_transport_failure truthy_str_def)
qed

theorem generateSuggestion_never_throws_witness:
  "example_invoke ''no suggestion here'' (fullPrompt example_payload) [] =
     (Inr (TextContent ''no suggestion here''), []) \<and>
   match_suggestion ''no suggestion here'' = None \<and>
   AzureOpenAiLlmService_generateSuggestion (example_invoke ''no suggestion here'')
       example_payload [] =
     (Inr \<lparr>suggestionMarkdown =
             ''```suggestion\<newline>// LLM response was not in the expected format.\<newline>```'',
           rationale = Some ''Could not parse suggestion from LLM response.'',
           error = Some ''LLM response parsing failed.''\<rparr>, []) \<and>
   example_failing_invoke (fullPrompt example_payload) [] =
     (Inl (Error ''429 quota exceeded''), []) \<and>
   AzureOpenAiLlmService_generateSuggestion example_failing_invoke example_payload [] =
     (Inr \<lparr>suggestionMarkdown =
             ''```suggestion\<newline>// Error occurred while generating suggestion.\<newline>```'',
           rationale = Some ''Failed to generate suggestion due to an internal error.'',
           error = Some ''429 quota exceeded''\<rparr>, [])"
proof -
  have i: "example_invoke ''no suggestion here'' (fullPrompt example_payload) [] =
     (Inr (TextContent ''no suggestion here''), [])"
    by (simp add: example_invoke_def)
  have m: "match_suggestion ''no suggestion here'' = None"
    by (simp add: match_suggestion_def fence_open_def)
  have f: "example_failing_invoke (fullPrompt example_payload) [] =
     (Inl (Error ''429 quota exceeded''), [])"
    by (simp add: example_failing_invoke_def)
  from generateSuggestion_never_throws
         [of "example_invoke ''no suggestion here''" example_payload "[]"] i m
  have 1: "AzureOpenAiLlmService_generateSuggestion (example_invoke ''no suggestion here'')
       example_payload [] =
     (Inr \<lparr>suggestionMarkdown =
             ''```suggestion\<newline>// LLM response was not in the expected format.\<newline>```'',
           rationale = Some ''Could not parse suggestion from LLM response.'',
           error = Some ''LLM response parsing failed.''\<rparr>, [])"
    by simp
  from generateSuggestion_never_throws [of example_failing_invoke example_payload "[]"] f
  have 2: "AzureOpenAiLlmService_generateSuggestion example_failing_invoke example_payload [] =
     (Inr \<lparr>suggestionMarkdown =
             ''```suggestion\<newline>// Error occurred while generating suggestion.\<newline>```'',
           rationale = Some ''Failed to generate suggestion due to an internal error.'',
           error = Some ''429 quota exceeded''\<rparr>, [])"
    by (simp add: azure_transport_failure)
  from i m f 1 2 show ?thesis by simp
qed

text \<open>
  C10. Every suggestion that \<open>generateSuggestion\<close> of the Azure service returns, the
  results of both error branches included, has a markdown that contains the marker of a
  fenced suggestion block. So the pipeline's test rejects such a result exactly when its
  error is populated, and the error is populated exactly when no response text with a
  fenced block was received.
\<close>

theorem azure_suggestion_has_marker:
  "\<exists>s w'. AzureOpenAiLlmService_generateSuggestion invoke payload w = (Inr s, w') \<and>
      includes_str (suggestionMarkdown s) ''```suggestion'' \<and>
      ((truthy_str (error s) \<or> \<not> includes_str (suggestionMarkdown s) ''```suggestion'') =
         truthy_str (error s)) \<and>
      (truthy_str (error s) =
         (\<forall>responseText. fst (invoke (fullPrompt payload) w) = Inr (TextContent responseText)
            \<longrightarrow> match_suggestion responseText = None))"
proof (cases "invoke (fullPrompt payload) w")
  case (Pair r w')
  show ?thesis
  proof (cases r)
    case (Inl e)
    with Pair show ?thesis
      by (simp add: azure_transport_failure includes_str_def truthy_str_def)
  next
    case (Inr c)
    show ?thesis
    proof (cases c)
      case (TextContent responseText)
      with Pair Inr have "AzureOpenAiLlmService_generateSuggestion invoke payload w =
          (Inr (parseResponse responseText), w')"
        by (simp add: azure_text_response)
      with Pair Inr TextContent show ?thesis
        by (simp add: parseResponse_marker parseResponse_error_iff)
    next
      case OtherContent
      with Pair Inr show ?thesis
        by (simp add: AzureOpenAiLlmService_generateSuggestion_def generateSuggestion_try_def
              includes_str_def truthy_str_def)
    qed
  qed
qed

theorem azure_suggestion_has_marker_witness:
  "AzureOpenAiLlmService_generateSuggestion (example_invoke ''no suggestion here'')
      example_payload [] =
     (Inr \<lparr>suggestionMarkdown =
             ''```suggestion\<newline>// LLM response was not in the expected format.\<newline>```'',
           rationale = Some ''Could not parse suggestion from LLM response.'',
           error = Some ''LLM response parsing failed.''\<rparr>, []) \<and>
   includes_str ''```suggestion\<newline>// LLM response was not in the expected format.\<newline>```''
     ''```suggestion'' \<and>
   AzureOpenAiLlmService_generateSuggestion example_failing_invoke example_payload [] =
     (Inr \<lparr>suggestionMarkdown =
             ''```suggestion\<newline>// Error occurred while generating suggestion.\<newline>```'',
           rationale = Some ''Failed to generate suggestion due to an internal error.'',
           error = Some ''429 quota exceeded''\<rparr>, []) \<and>
   includes_str ''```suggestion\<newline>// Error occurred while generating suggestion.\<newline>```''
     ''```suggestion''"
  using azure_suggestion_has_marker [of "example_invoke ''no suggestion here''" example_payload "[]"]
    azure_suggestion_has_marker [of example_failing_invoke example_payload "[]"]
  by (simp add: pipeline_eval)

section \<open>Claims about the posted reply\<close>

text \<open>
  C8, as amended. For a response \<open>pre @ block @ mid @ ''Rationale: '' @ tail\<close> whose
  fenced block is \<open>block = fence_open @ code @ fence_close\<close>, where the block's fences
  are the first in the response and \<^verbatim>\<open>Rationale: \<close> does not occur before the
  rationale line: the suggestion handed to \<open>postSuggestionComment\<close> is the block exactly
  as the model produced it, and the explanation is \<^verbatim>\<open>Rationale: \<close> followed by the rest
  of that line with the white space at its ends trimmed, or no explanation when nothing
  is left; the body that the GitHub service posts is the explanation, a newline and the
  block. (As stated, with the rationale line kept verbatim, the claim fails on a line that
  ends in a space: see the counterexample.)
\<close>

theorem suggestion_round_trip:
  assumes "responseText = pre @ fence_open @ code @ fence_close @ mid @ ''Rationale: '' @ tail"
    and "indexOf (pre @ fence_open) fence_open = Some (length pre)"
    and "indexOf (code @ fence_close) fence_close = Some (length code)"
    and "indexOf (pre @ fence_open @ code @ fence_close @ mid @ ''Rationale: '') ''Rationale: '' =
           Some (length (pre @ fence_open @ code @ fence_close @ mid))"
    and "processComment vcsService llmService prDetails comment w = (result, events, w')"
    and "GenerateSuggestion payload (Inr (parseResponse responseText)) \<in> set events"
  shows "(let block = fence_open @ code @ fence_close;
              rtext = js_trim (takeWhile (\<lambda>c. \<not> is_line_terminator c) tail);
              line = (if rtext = [] then None else Some (''Rationale: '' @ rtext))
          in parseResponse responseText =
               \<lparr>suggestionMarkdown = block, rationale = Some rtext, error = None\<rparr> \<and>
             (\<exists>posted. PostSuggestionComment (commentId comment) block line posted \<in> set events) \<and>
             GitHubService_postSuggestionComment createReply prDetails (commentId comment)
                 block line u =
               createReply prDetails (commentId comment)
                 (case line of None \<Rightarrow> block | Some l \<Rightarrow> l @ CHR 0x0A # block) u)"
proof -
  define block where "block = fence_open @ code @ fence_close"
  define rtext where "rtext = js_trim (takeWhile (\<lambda>c. \<not> is_line_terminator c) tail)"
  have p: "parseResponse responseText =
             \<lparr>suggestionMarkdown = block, rationale = Some rtext, error = None\<rparr>"
    unfolding assms(1) block_def rtext_def using assms(2,3,4) by (rule parseResponse_well_formed)
  have inc: "includes_str (suggestionMarkdown (parseResponse responseText)) ''```suggestion''"
    by (rule parseResponse_marker)
  have ne: "\<not> truthy_str (error (parseResponse responseText))"
    by (simp add: p truthy_str_def)
  from processComment_posts [OF assms(5,6) ne inc]
  have post: "\<exists>posted. PostSuggestionComment (commentId comment) block
                 (if rtext = [] then None else Some (''Rationale: '' @ rtext)) posted \<in> set events"
    unfolding p by (cases "rtext = []") (simp_all add: truthy_str_def)
  have gh: "GitHubService_postSuggestionComment createReply prDetails (commentId comment)
                 block (if rtext = [] then None else Some (''Rationale: '' @ rtext)) u =
               createReply prDetails (commentId comment)
                 (case (if rtext = [] then None else Some (''Rationale: '' @ rtext)) of
                    None \<Rightarrow> block | Some l \<Rightarrow> l @ CHR 0x0A # block) u"
    by (simp add: GitHub_body)
  from p post gh show ?thesis
    unfolding Let_def block_def [symmetric] rtext_def [symmetric] by blast
qed

theorem suggestion_round_trip_witness:
  "parseResponse ''```suggestion\<newline>B\<newline>```\<newline>Rationale: rename'' =
     \<lparr>suggestionMarkdown = ''```suggestion\<newline>B\<newline>```'', rationale = Some ''rename'',
      error = None\<rparr> \<and>
   GitHubService_postSuggestionComment example_createReply example_pr (IdNumber 42)
     ''```suggestion\<newline>B\<newline>```'' (Some ''Rationale: rename'') [] =
     (Inr (), [''Rationale: rename\<newline>```suggestion\<newline>B\<newline>```''])"
proof -
  let ?resp = "''```suggestion\<newline>B\<newline>```\<newline>Rationale: rename''"
  have h1: "?resp = [] @ fence_open @ ''B'' @ fence_close @ ''\<newline>'' @ ''Rationale: '' @ ''rename''"
    by (simp add: fence_open_def fence_close_def)
  have h2: "indexOf ([] @ fence_open) fence_open = Some (length ([] :: string))"
    by (simp add: fence_open_def)
  have h3: "indexOf (''B'' @ fence_close) fence_close = Some (length ''B'')"
    by (simp add: fence_close_def)
  have h4: "indexOf ([] @ fence_open @ ''B'' @ fence_close @ ''\<newline>'' @ ''Rationale: '')
              ''Rationale: '' = Some (length ([] @ fence_open @ ''B'' @ fence_close @ ''\<newline>''))"
    by (simp add: fence_open_def fence_close_def)
  have p: "parseResponse ?resp =
     \<lparr>suggestionMarkdown = ''```suggestion\<newline>B\<newline>```'', rationale = Some ''rename'',
      error = None\<rparr>"
    by (simp add: pipeline_eval)
  have gen: "GenerateSuggestion
       \<lparr>reviewerComment = ''rename this'', codeContext = ''a\<newline>b\<newline>c\<newline>d\<newline>e'',
        promptFilePath = Some ''a.ts'', originalCode = ''c'', language = None,
        projectRules = None\<rparr> (Inr (parseResponse ?resp)) \<in> set
    [GetFileContent ''a.ts'' (Some ''feature'')
       (Inr (Some \<lparr>path = ''a.ts'', content = ''a\<newline>b\<newline>c\<newline>d\<newline>e'',
                    encoding = Some ''utf-8''\<rparr>)),
     GenerateSuggestion
       \<lparr>reviewerComment = ''rename this'', codeContext = ''a\<newline>b\<newline>c\<newline>d\<newline>e'',
        promptFilePath = Some ''a.ts'', originalCode = ''c'', language = None,
        projectRules = None\<rparr>
       (Inr \<lparr>suggestionMarkdown = ''```suggestion\<newline>B\<newline>```'',
              rationale = Some ''rename'', error = None\<rparr>),
     PostSuggestionComment (IdNumber 42) ''```suggestion\<newline>B\<newline>```''
       (Some ''Rationale: rename'') (Inr ())]"
    by (simp add: p)
  from suggestion_round_trip [OF h1 h2 h3 h4 example_run_posted [of "[]"] gen,
      of example_createReply "[]"]
  show ?thesis
    by (simp add: Let_def fence_open_def fence_close_def js_trim_def is_whitespace_def
          is_line_terminator_def example_comment_def example_createReply_def)
qed

theorem suggestion_round_trip_counterexample:
  "parseResponse ''```suggestion\<newline>B\<newline>```\<newline>Rationale: rename '' =
     \<lparr>suggestionMarkdown = ''```suggestion\<newline>B\<newline>```'', rationale = Some ''rename'',
      error = None\<rparr> \<and>
   processComment example_vcs
     (AzureOpenAiLlmService (example_invoke ''```suggestion\<newline>B\<newline>```\<newline>Rationale: rename ''))
     example_pr (example_comment (Some ''a.ts'') (Some 3)) [] =
   (Inr Posted,
    [GetFileContent ''a.ts'' (Some ''feature'')
       (Inr (Some \<lparr>path = ''a.ts'', content = ''a\<newline>b\<newline>c\<newline>d\<newline>e'',
                    encoding = Some ''utf-8''\<rparr>)),
     GenerateSuggestion
       \<lparr>reviewerComment = ''rename this'', codeContext = ''a\<newline>b\<newline>c\<newline>d\<newline>e'',
        promptFilePath = Some ''a.ts'', originalCode = ''c'', language = None,
        projectRules = None\<rparr>
       (Inr \<lparr>suggestionMarkdown = ''```suggestion\<newline>B\<newline>```'',
              rationale = Some ''rename'', error = None\<rparr>),
     PostSuggestionComment (IdNumber 42) ''```suggestion\<newline>B\<newline>```''
       (Some ''Rationale: rename'') (Inr ())],
    [''Rationale: rename\<newline>```suggestion\<newline>B\<newline>```'']) \<and>
   includes_str ''```suggestion\<newline>B\<newline>```\<newline>Rationale: rename '' ''Rationale: rename '' \<and>
   \<not> includes_str ''Rationale: rename\<newline>```suggestion\<newline>B\<newline>```'' ''Rationale: rename ''"
  by (simp add: pipeline_eval Let_def)

text \<open>
  C9. What \<open>postSuggestionComment\<close> of the GitLab service does when the original note has
  no position: it creates a discussion whose body is the original note's own body, not a
  comment that names the original comment's id (nor the suggestion). The branch that
  would write the reference is behind a test that cannot fail. The witness is a thread
  whose first note says \<^verbatim>\<open>please rename\<close> and has no position.
\<close>

theorem gitlab_reply_posts_original_body:
  assumes "showDiscussion (repo prDetails) (pullNumber prDetails)
             (id_to_string replyToCommentId) w = (Inr (Some thread), w1)"
    and "threadNotes thread = Some (firstThreadNote # others)"
    and "position firstThreadNote = None"
  shows "GitLabService_postSuggestionComment showDiscussion createDiscussion prDetails
           replyToCommentId suggestion explanation w =
         createDiscussion (repo prDetails) (pullNumber prDetails)
           (noteBody firstThreadNote) None w1"
  using GitLab_first_note [where showDiscussion = showDiscussion and prDetails = prDetails
      and replyToCommentId = replyToCommentId and w = w, OF assms(1,2)] assms(3)
  by simp

theorem gitlab_reply_posts_original_body_witness:
  "example_showDiscussion (repo example_pr) (pullNumber example_pr)
     (id_to_string (IdNumber 42)) [] =
     (Inr (Some \<lparr>threadNotes = Some [\<lparr>noteBody = ''please rename'', position = None\<rparr>]\<rparr>), []) \<and>
   GitLabService_postSuggestionComment example_showDiscussion example_createDiscussion
     example_pr (IdNumber 42) ''```suggestion\<newline>B\<newline>```'' (Some ''Rationale: rename'') [] =
     (Inr (), [''please rename'']) \<and>
   \<not> includes_str ''please rename'' ''42'' \<and>
   \<not> includes_str ''please rename'' ''```suggestion''"
proof -
  have s: "example_showDiscussion (repo example_pr) (pullNumber example_pr)
     (id_to_string (IdNumber 42)) [] =
     (Inr (Some \<lparr>threadNotes = Some [\<lparr>noteBody = ''please rename'', position = None\<rparr>]\<rparr>), [])"
    by (simp add: example_showDiscussion_def)
  from gitlab_reply_posts_original_body [where showDiscussion = example_showDiscussion
      and prDetails = example_pr and replyToCommentId = "IdNumber 42" and w = "[]"
      and firstThreadNote = "\<lparr>noteBody = ''please rename'', position = None\<rparr>"
      and others = "[]" and createDiscussion = example_createDiscussion
      and suggestion = "''```suggestion\<newline>B\<newline>```''"
      and explanation = "Some ''Rationale: rename''", OF s]
  have "GitLabService_postSuggestionComment example_showDiscussion example_createDiscussion
     example_pr (IdNumber 42) ''```suggestion\<newline>B\<newline>```'' (Some ''Rationale: rename'') [] =
     (Inr (), [''please rename''])"
    by (simp add: example_createDiscussion_def)
  with s show ?thesis by (simp add: includes_str_def)
qed

end
